theory Spec2Isabelle
  imports Main "HOL-Library.Multiset" "HOL-Library.Word"
begin

section \<open>The task table (shared/schema.ts)\<close>

text \<open>
  A row of the \<^verbatim>\<open>tasks\<close> table: \<^verbatim>\<open>id serial primary key\<close>,
  \<^verbatim>\<open>title text not null\<close>, \<^verbatim>\<open>completed boolean not null default false\<close>,
  \<^verbatim>\<open>created_at timestamp not null default now()\<close> and the nullable
  \<^verbatim>\<open>completed_at timestamp\<close>. A serial column is a 32-bit integer, so an id is a
  32-bit word. Timestamps are points on an integer time line; the clock value of a request
  is an argument of the operation that reads it. The field \<^verbatim>\<open>id\<close> is named
  \<open>task_id\<close> here, \<open>id\<close> being the identity function of HOL.
\<close>

type_synonym timestamp = int

record task =
  task_id :: "32 word"
  title :: string
  completed :: bool
  createdAt :: timestamp
  completedAt :: "timestamp option"

text \<open>
  The database: the rows of the table in their physical order and the next value of the
  sequence behind the serial column. The sequence starts at 1 and ends at 2147483647.
  The store is always reachable: a lost connection is outside the model.
\<close>

record store =
  rows :: "task list"
  nextId :: nat

definition emptyStore :: store where
  "emptyStore = \<lparr>rows = [], nextId = 1\<rparr>"

section \<open>Request data\<close>

text \<open>
  A JSON value as \<^verbatim>\<open>express.json()\<close> leaves it in \<^verbatim>\<open>req.body\<close>. A number is
  an integer or \<open>JFraction\<close>, a number that is no integer, whose value plays no part
  below. The body itself is a map from property names to values; a name outside its domain
  reads as \<^verbatim>\<open>undefined\<close>. Strings are lists of code units below 256.
\<close>

datatype jsval =
    JNull
  | JBool bool
  | JNum int
  | JFraction
  | JStr string
  | JArr "jsval list"
  | JObj "(string \<times> jsval) list"

type_synonym body = "string \<rightharpoonup> jsval"

text \<open>JavaScript's ToBoolean, as used by the conditional operator.\<close>

fun truthy :: "jsval \<Rightarrow> bool" where
  "truthy JNull = False"
| "truthy (JBool b) = b"
| "truthy (JNum n) = (n \<noteq> 0)"
| "truthy JFraction = True"
| "truthy (JStr s) = (s \<noteq> [])"
| "truthy (JArr vs) = True"
| "truthy (JObj kvs) = True"

datatype error = ZodError | StoreError

subsection \<open>insertTaskSchema\<close>

text \<open>
  \<^verbatim>\<open>createInsertSchema(tasks).pick({ title: true })\<close>: the column is
  \<^verbatim>\<open>text("title").notNull()\<close>, for which drizzle-zod generates a plain required
  \<^verbatim>\<open>z.string()\<close>, with no minimum and no maximum length. Parsing keeps the title and
  strips every other key.
\<close>

definition insertTaskSchema_parse :: "body \<Rightarrow> error + string" where
  "insertTaskSchema_parse b =
     (case b ''title'' of
        Some (JStr s) \<Rightarrow> Inr s
      | _ \<Rightarrow> Inl ZodError)"

subsection \<open>parseInt\<close>

text \<open>
  A JavaScript number as far as an id needs it: NaN, an integer of magnitude up to
  \<open>2 ^ 53 - 1\<close>, which a double holds exactly, or \<open>Unsafe\<close>: a double of magnitude
  \<open>2 ^ 53\<close> or more, or an infinity, whose value depends on the rounding of the
  implementation and is not determined here.
\<close>

datatype jsnumber = NaN | Integer int | Unsafe

definition toNumber :: "int \<Rightarrow> jsnumber" where
  "toNumber m = (if \<bar>m\<bar> \<le> 9007199254740991 then Integer m else Unsafe)"

text \<open>
  \<^verbatim>\<open>parseInt(string)\<close> with no radix: leading white space is skipped, one sign is
  read, a prefix \<^verbatim>\<open>0x\<close> or \<^verbatim>\<open>0X\<close> switches to radix 16, and the longest run of
  digits of the radix is the value; an empty run gives NaN. Among the code units below 256
  the white space is TAB, LF, VT, FF, CR, SP and NBSP.
\<close>

definition isWhiteSpace :: "char \<Rightarrow> bool" where
  "isWhiteSpace c = (c \<in> set [CHR 0x09, CHR 0x0A, CHR 0x0B, CHR 0x0C, CHR 0x0D, CHR 0x20, CHR 0xA0])"

definition digitValue :: "char \<Rightarrow> nat option" where
  "digitValue c =
     (let n = (of_char c :: nat) in
      if 48 \<le> n \<and> n \<le> 57 then Some (n - 48)
      else if 97 \<le> n \<and> n \<le> 102 then Some (n - 87)
      else if 65 \<le> n \<and> n \<le> 70 then Some (n - 55)
      else None)"

definition isDigit :: "nat \<Rightarrow> char \<Rightarrow> bool" where
  "isDigit R c = (case digitValue c of None \<Rightarrow> False | Some d \<Rightarrow> d < R)"

definition digitsValue :: "nat \<Rightarrow> string \<Rightarrow> int" where
  "digitsValue R Z = foldl (\<lambda>a c. a * int R + int (the (digitValue c))) 0 Z"

definition parseInt :: "string \<Rightarrow> jsnumber" where
  "parseInt inputString =
     (let S = dropWhile isWhiteSpace inputString;
          (sign, S1) = (case S of
                          c # r \<Rightarrow> if c = CHR ''-'' then (- 1, r)
                                   else if c = CHR ''+'' then (1, r) else (1, S)
                        | [] \<Rightarrow> (1, S));
          (R, S2) = (case S1 of
                       c # d # r \<Rightarrow> if c = CHR ''0'' \<and> (d = CHR ''x'' \<or> d = CHR ''X'')
                                       then (16, r) else (10, S1)
                     | _ \<Rightarrow> (10, S1));
          Z = takeWhile (isDigit R) S2
      in if Z = [] then NaN else toNumber (sign * digitsValue R Z))"

section \<open>What PostgreSQL reads from a query parameter\<close>

text \<open>
  The driver sends every parameter as text (\<^verbatim>\<open>prepareValue\<close>: a number and a boolean
  by \<^verbatim>\<open>toString\<close>, a string as it is, an array as an array literal, an object as
  JSON, null as NULL) and PostgreSQL reads the text with the input function of the
  column's type. A text that the input function refuses fails the statement.
\<close>

text \<open>
  The id column: the decimal text of an integer within the 32-bit range is that integer; the
  text of any other number (\<^verbatim>\<open>NaN\<close>, \<^verbatim>\<open>Infinity\<close>, an exponent form, a value out of
  range) is refused.
\<close>

definition toInt4 :: "jsnumber \<Rightarrow> 32 word option" where
  "toInt4 n =
     (case n of
        Integer i \<Rightarrow> if - 2147483648 \<le> i \<and> i \<le> 2147483647 then Some (word_of_int i) else None
      | _ \<Rightarrow> None)"

text \<open>
  The boolean column (\<^verbatim>\<open>boolin\<close>): white space on both sides is dropped, case is
  ignored, and the spellings are the non-empty prefixes of \<^verbatim>\<open>true\<close>, \<^verbatim>\<open>false\<close>,
  \<^verbatim>\<open>yes\<close>, \<^verbatim>\<open>no\<close>, the words \<^verbatim>\<open>on\<close>, \<^verbatim>\<open>of\<close>, \<^verbatim>\<open>off\<close>, and \<^verbatim>\<open>1\<close> and
  \<^verbatim>\<open>0\<close>.
\<close>

definition isspace :: "char \<Rightarrow> bool" where
  "isspace c = (c \<in> set [CHR 0x09, CHR 0x0A, CHR 0x0B, CHR 0x0C, CHR 0x0D, CHR 0x20])"

definition tolower :: "char \<Rightarrow> char" where
  "tolower c =
     (case map_of (zip ''ABCDEFGHIJKLMNOPQRSTUVWXYZ'' ''abcdefghijklmnopqrstuvwxyz'') c of
        Some l \<Rightarrow> l
      | None \<Rightarrow> c)"

definition boolin :: "string \<Rightarrow> bool option" where
  "boolin str =
     (let v = map tolower (rev (dropWhile isspace (rev (dropWhile isspace str))))
      in if v \<in> set [''t'', ''tr'', ''tru'', ''true'', ''y'', ''ye'', ''yes'', ''on'', ''1'']
         then Some True
         else if v \<in> set [''f'', ''fa'', ''fal'', ''fals'', ''false'', ''n'', ''no'', ''of'',
                           ''off'', ''0'']
         then Some False
         else None)"

datatype pgparam = PgNull | PgBool bool | PgInvalid

text \<open>
  What reaches the boolean column from a JSON value. An array literal and the JSON text of
  an object start with a brace, which no boolean spelling does.
\<close>

fun toColumn :: "jsval \<Rightarrow> pgparam" where
  "toColumn JNull = PgNull"
| "toColumn (JBool b) = PgBool b"
| "toColumn (JNum n) = (if n = 1 then PgBool True else if n = 0 then PgBool False else PgInvalid)"
| "toColumn JFraction = PgInvalid"
| "toColumn (JStr s) = (case boolin s of None \<Rightarrow> PgInvalid | Some b \<Rightarrow> PgBool b)"
| "toColumn (JArr vs) = PgInvalid"
| "toColumn (JObj kvs) = PgInvalid"

section \<open>The storage layer (server/storage.ts)\<close>

subsection \<open>getAllTasks\<close>

text \<open>
  \<^verbatim>\<open>ORDER BY completed ASC, created_at DESC\<close>: \<open>orderBy a b\<close> says that row \<open>a\<close> may
  stand before row \<open>b\<close>. The query is an insertion sort of the rows under this relation;
  rows that agree on both keys keep their physical order, where PostgreSQL promises no
  order at all.
\<close>

definition orderBy :: "task \<Rightarrow> task \<Rightarrow> bool" where
  "orderBy a b =
     (if completed a = completed b then createdAt b \<le> createdAt a else \<not> completed a)"

fun placeRow :: "task \<Rightarrow> task list \<Rightarrow> task list" where
  "placeRow t [] = [t]"
| "placeRow t (u # us) = (if orderBy t u then t # u # us else u # placeRow t us)"

fun orderRows :: "task list \<Rightarrow> task list" where
  "orderRows [] = []"
| "orderRows (t # ts) = placeRow t (orderRows ts)"

definition getAllTasks :: "store \<Rightarrow> task list" where
  "getAllTasks s = orderRows (rows s)"

subsection \<open>createTask\<close>

text \<open>
  \<^verbatim>\<open>INSERT INTO tasks (title) VALUES (...) RETURNING *\<close>: the id is drawn from the
  sequence, \<open>completed\<close> and \<open>created_at\<close> take their defaults, \<open>completed_at\<close> is NULL.
  The statement fails, and the promise rejects, when the title holds the code unit 0,
  which the text type refuses, and when the sequence has passed its last value.
\<close>

definition createTask :: "string \<Rightarrow> timestamp \<Rightarrow> store \<Rightarrow> error + (task \<times> store)" where
  "createTask ttl now s =
     (if CHR 0x00 \<in> set ttl then Inl StoreError
      else if nextId s > 2147483647 then Inl StoreError
      else
        (let newTask = \<lparr>task_id = of_nat (nextId s), title = ttl, completed = False,
                        createdAt = now, completedAt = None\<rparr>
         in Inr (newTask, s\<lparr>rows := rows s @ [newTask], nextId := nextId s + 1\<rparr>)))"

subsection \<open>updateTask\<close>

text \<open>
  The \<^verbatim>\<open>updates\<close> object: a field is \<open>None\<close> when the key is absent. The handler
  builds it as \<^verbatim>\<open>any\<close>, so \<open>completed\<close> can hold any JSON value; \<open>completedAt\<close> is a
  date or null.
\<close>

record updates =
  u_completed :: "jsval option"
  u_completedAt :: "timestamp option option"

definition noUpdates :: updates where
  "noUpdates = \<lparr>u_completed = None, u_completedAt = None\<rparr>"

definition applyUpdates :: "bool option \<Rightarrow> timestamp option option \<Rightarrow> task \<Rightarrow> task" where
  "applyUpdates c ca t =
     (let t1 = (case c of None \<Rightarrow> t | Some b \<Rightarrow> t\<lparr>completed := b\<rparr>)
      in case ca of None \<Rightarrow> t1 | Some v \<Rightarrow> t1\<lparr>completedAt := v\<rparr>)"

definition updateRows :: "32 word \<Rightarrow> bool option \<Rightarrow> timestamp option option \<Rightarrow> store
    \<Rightarrow> task option \<times> store" where
  "updateRows i c ca s =
     (let returning = map (applyUpdates c ca) (filter (\<lambda>t. task_id t = i) (rows s));
          s' = s\<lparr>rows := map (\<lambda>t. if task_id t = i then applyUpdates c ca t else t) (rows s)\<rparr>
      in (case returning of [] \<Rightarrow> None | updatedTask # _ \<Rightarrow> Some updatedTask, s'))"

text \<open>
  \<^verbatim>\<open>UPDATE tasks SET ... WHERE id = $1 RETURNING *\<close>. drizzle refuses an empty set of
  values with an exception; an id or a \<open>completed\<close> value that its column does not read
  fails the statement; NULL for \<open>completed\<close> violates NOT NULL as soon as a row matches.
  The first returned row is the result, \<open>None\<close> for \<^verbatim>\<open>undefined\<close>.
\<close>

definition updateTask :: "jsnumber \<Rightarrow> updates \<Rightarrow> store \<Rightarrow> error + (task option \<times> store)" where
  "updateTask idNum u s =
     (if u_completed u = None \<and> u_completedAt u = None then Inl StoreError
      else case toInt4 idNum of
        None \<Rightarrow> Inl StoreError
      | Some i \<Rightarrow>
         (case map_option toColumn (u_completed u) of
            Some PgInvalid \<Rightarrow> Inl StoreError
          | Some PgNull \<Rightarrow>
              if filter (\<lambda>t. task_id t = i) (rows s) = [] then Inr (None, s)
              else Inl StoreError
          | Some (PgBool b) \<Rightarrow> Inr (updateRows i (Some b) (u_completedAt u) s)
          | None \<Rightarrow> Inr (updateRows i None (u_completedAt u) s)))"

subsection \<open>deleteTask\<close>

text \<open>
  \<^verbatim>\<open>DELETE FROM tasks WHERE id = $1 RETURNING *\<close>, then \<^verbatim>\<open>result.length > 0\<close>.
  An id that the id column does not read fails the statement.
\<close>

definition deleteTask :: "jsnumber \<Rightarrow> store \<Rightarrow> error + (bool \<times> store)" where
  "deleteTask idNum s =
     (case toInt4 idNum of
        None \<Rightarrow> Inl StoreError
      | Some i \<Rightarrow>
          (let result = filter (\<lambda>t. task_id t = i) (rows s)
           in Inr (length result > 0, s\<lparr>rows := filter (\<lambda>t. task_id t \<noteq> i) (rows s)\<rparr>)))"

section \<open>The routes (server/routes.ts)\<close>

text \<open>
  \<^verbatim>\<open>registerRoutes\<close>: each handler takes what it reads from the request (the
  \<^verbatim>\<open>:id\<close> path parameter, the parsed body, the clock) and the store, and returns the
  response with the store it leaves. The \<^verbatim>\<open>catch\<close> branch of a handler is the
  \<open>Inl\<close> case of its storage call. The query of \<^verbatim>\<open>getAllTasks\<close> has no parameter
  and no way to fail here, so the first handler has no \<^verbatim>\<open>catch\<close> branch.
\<close>

datatype payload =
    Tasks "task list"
  | OneTask task
  | Message string
  | ValidationErrors string
  | Empty

record response =
  status :: nat
  payload :: payload

text \<open>\<^verbatim>\<open>GET /api/tasks\<close>\<close>

definition getTasks :: "store \<Rightarrow> response \<times> store" where
  "getTasks s = (\<lparr>status = 200, payload = Tasks (getAllTasks s)\<rparr>, s)"

text \<open>\<^verbatim>\<open>POST /api/tasks\<close>\<close>

definition postTask :: "body \<Rightarrow> timestamp \<Rightarrow> store \<Rightarrow> response \<times> store" where
  "postTask b now s =
     (case insertTaskSchema_parse b of
        Inl e \<Rightarrow> (\<lparr>status = 400, payload = ValidationErrors ''Invalid task data''\<rparr>, s)
      | Inr validatedData \<Rightarrow>
          (case createTask validatedData now s of
             Inl e \<Rightarrow> (\<lparr>status = 500, payload = Message ''Failed to create task''\<rparr>, s)
           | Inr (newTask, s') \<Rightarrow> (\<lparr>status = 201, payload = OneTask newTask\<rparr>, s')))"

text \<open>\<^verbatim>\<open>PATCH /api/tasks/:id\<close>\<close>

definition patchUpdates :: "body \<Rightarrow> timestamp \<Rightarrow> updates" where
  "patchUpdates b now =
     (case b ''completed'' of
        None \<Rightarrow> noUpdates
      | Some v \<Rightarrow> \<lparr>u_completed = Some v,
                   u_completedAt = Some (if truthy v then Some now else None)\<rparr>)"

definition patchTask :: "string \<Rightarrow> body \<Rightarrow> timestamp \<Rightarrow> store \<Rightarrow> response \<times> store" where
  "patchTask idParam b now s =
     (let idNum = parseInt idParam
      in if idNum = NaN then (\<lparr>status = 400, payload = Message ''Invalid task ID''\<rparr>, s)
         else
          (case updateTask idNum (patchUpdates b now) s of
             Inl e \<Rightarrow> (\<lparr>status = 500, payload = Message ''Failed to update task''\<rparr>, s)
           | Inr (None, s') \<Rightarrow> (\<lparr>status = 404, payload = Message ''Task not found''\<rparr>, s')
           | Inr (Some updatedTask, s') \<Rightarrow> (\<lparr>status = 200, payload = OneTask updatedTask\<rparr>, s')))"

text \<open>\<^verbatim>\<open>DELETE /api/tasks/:id\<close>\<close>

definition deleteTaskRoute :: "string \<Rightarrow> store \<Rightarrow> response \<times> store" where
  "deleteTaskRoute idParam s =
     (let idNum = parseInt idParam
      in if idNum = NaN then (\<lparr>status = 400, payload = Message ''Invalid task ID''\<rparr>, s)
         else
          (case deleteTask idNum s of
             Inl e \<Rightarrow> (\<lparr>status = 500, payload = Message ''Failed to delete task''\<rparr>, s)
           | Inr (deleted, s') \<Rightarrow>
               if \<not> deleted then (\<lparr>status = 404, payload = Message ''Task not found''\<rparr>, s')
               else (\<lparr>status = 204, payload = Empty\<rparr>, s')))"

subsection \<open>Sequences of requests\<close>

datatype request =
    GET
  | POST body timestamp
  | PATCH string body timestamp
  | DELETE string

fun handle :: "request \<Rightarrow> store \<Rightarrow> response \<times> store" where
  "handle GET s = getTasks s"
| "handle (POST b now) s = postTask b now s"
| "handle (PATCH idParam b now) s = patchTask idParam b now s"
| "handle (DELETE idParam) s = deleteTaskRoute idParam s"

fun run :: "request list \<Rightarrow> store \<Rightarrow> response list \<times> store" where
  "run [] s = ([], s)"
| "run (r # rs) s =
     (let (resp, s') = handle r s;
          (resps, s'') = run rs s'
      in (resp # resps, s''))"

subsection \<open>The operations of the specification\<close>

text \<open>
  \<^verbatim>\<open>setCompletion(id, c)\<close> is a PATCH whose body carries the boolean \<open>c\<close> under
  \<^verbatim>\<open>completed\<close>. \<open>taskOperation\<close> holds of the requests that are one of the four
  operations \<^verbatim>\<open>list\<close>, \<^verbatim>\<open>create\<close>, \<^verbatim>\<open>setCompletion\<close> and \<^verbatim>\<open>delete\<close>.
\<close>

definition setCompletionBody :: "bool \<Rightarrow> body" where
  "setCompletionBody c = Map.empty(''completed'' \<mapsto> JBool c)"

text \<open>The bodies \<^verbatim>\<open>{ title: x }\<close> and \<^verbatim>\<open>{ completed: v }\<close>.\<close>

definition createBody :: "string \<Rightarrow> body" where
  "createBody x = Map.empty(''title'' \<mapsto> JStr x)"

definition completedBody :: "jsval \<Rightarrow> body" where
  "completedBody v = Map.empty(''completed'' \<mapsto> v)"


text \<open>The ids of the tasks that a list of responses has shown to the client.\<close>

fun payloadTasks :: "payload \<Rightarrow> task list" where
  "payloadTasks (Tasks ts) = ts"
| "payloadTasks (OneTask t) = [t]"
| "payloadTasks p = []"

definition seenIds :: "response list \<Rightarrow> 32 word list" where
  "seenIds resps = concat (map (\<lambda>r. map task_id (payloadTasks (payload r))) resps)"


subsection \<open>Example data\<close>

definition taskA :: task where
  "taskA = \<lparr>task_id = 1, title = ''A'', completed = False, createdAt = 10, completedAt = None\<rparr>"

definition taskB :: task where
  "taskB = \<lparr>task_id = 2, title = ''B'', completed = True, createdAt = 20, completedAt = Some 25\<rparr>"

definition taskC :: task where
  "taskC = \<lparr>task_id = 3, title = ''C'', completed = False, createdAt = 30, completedAt = None\<rparr>"

definition exampleStore :: store where
  "exampleStore = \<lparr>rows = [taskA, taskB, taskC], nextId = 4\<rparr>"


section \<open>Properties of the ordering\<close>

lemma mset_placeRow: "mset (placeRow t ts) = add_mset t (mset ts)"
  by (induction ts) auto

lemma mset_orderRows: "mset (orderRows ts) = mset ts"
  by (induction ts) (auto simp: mset_placeRow)

lemma set_placeRow: "set (placeRow t ts) = insert t (set ts)"
  by (induction ts) auto

lemma set_orderRows: "set (orderRows ts) = set ts"
  by (induction ts) (auto simp: set_placeRow)

lemma orderBy_total: "orderBy a b \<or> orderBy b a"
  by (auto simp: orderBy_def)

lemma orderBy_trans: "orderBy a b \<Longrightarrow> orderBy b c \<Longrightarrow> orderBy a c"
  by (auto simp: orderBy_def split: if_splits)

lemma orderBy_iff:
  "orderBy a b \<longleftrightarrow>
     (completed a \<longrightarrow> completed b) \<and> (completed a = completed b \<longrightarrow> createdAt b \<le> createdAt a)"
  by (auto simp: orderBy_def)

lemma sorted_placeRow: "sorted_wrt orderBy ts \<Longrightarrow> sorted_wrt orderBy (placeRow t ts)"
proof (induction ts)
  case Nil
  then show ?case by simp
next
  case (Cons u us)
  show ?case
  proof (cases "orderBy t u")
    case True
    with Cons.prems show ?thesis
      by (auto intro: orderBy_trans)
  next
    case False
    then have "orderBy u t" using orderBy_total by blast
    with False Cons show ?thesis
      by (auto simp: set_placeRow)
  qed
qed

lemma sorted_orderRows: "sorted_wrt orderBy (orderRows ts)"
  by (induction ts) (auto simp: sorted_placeRow)

text \<open>
  Three rows A (pending, oldest), B (completed) and C (pending, newest) have one ordered
  arrangement only.
\<close>

lemma three_rows_ordered:
  assumes m: "mset ys = {#A, B, C#}"
    and s: "sorted_wrt orderBy ys"
    and h: "\<not> completed A" "completed B" "\<not> completed C"
      "createdAt A < createdAt B" "createdAt B < createdAt C"
  shows "ys = [C, A, B]"
proof -
  from m have "size (mset ys) = 3" by simp
  then have "length ys = 3" by simp
  then obtain x y z where ys: "ys = [x, y, z]"
    by (auto simp: numeral_3_eq_3 length_Suc_conv)
  from m have "set_mset (mset ys) = {A, B, C}" by simp
  then have st: "set ys = {A, B, C}" by simp
  have no: "\<not> orderBy A C" "\<not> orderBy B A" "\<not> orderBy B C"
    using h by (auto simp: orderBy_def)
  have ne: "A \<noteq> B" "A \<noteq> C" "B \<noteq> C"
    using h by auto
  then have "distinct [A, B, C]" by simp
  moreover have "mset ys = mset [A, B, C]" using m by simp
  ultimately have d: "distinct ys"
    using mset_eq_imp_distinct_iff by blast
  have mem: "x \<in> {A, B, C}" "y \<in> {A, B, C}" "z \<in> {A, B, C}"
    using st ys by auto
  have ord: "orderBy x y" "orderBy x z" "orderBy y z"
    using s ys by auto
  have dis: "x \<noteq> y" "x \<noteq> z" "y \<noteq> z"
    using d ys by auto
  have all: "A \<in> {x, y, z}" "B \<in> {x, y, z}" "C \<in> {x, y, z}"
    using st ys by auto
  have "x \<noteq> A" using all(3) ne(2) ord(1,2) no(1) by auto
  moreover have "x \<noteq> B" using all(1) ne(1) ord(1,2) no(2) by auto
  ultimately have x: "x = C" using mem(1) by auto
  have "y \<noteq> B" using all(1) ne(1,2) x ord(3) no(2) by auto
  then have y: "y = A" using mem(2) dis(1) x by auto
  have z: "z = B" using mem(3) dis(2,3) x y by auto
  from x y z have "x = C \<and> y = A \<and> z = B" by simp
  then show ?thesis using ys by simp
qed

section \<open>Properties of parseInt\<close>

lemma decimal_digit_plain:
  assumes "isDigit 10 d"
  shows "\<not> isWhiteSpace d" "d \<noteq> CHR ''-''" "d \<noteq> CHR ''+''" "d \<noteq> CHR ''x''" "d \<noteq> CHR ''X''"
  using assms by (auto simp: isDigit_def digitValue_def isWhiteSpace_def split: if_splits)

lemma x_no_decimal_digit: "\<not> isDigit 10 CHR ''x''" "\<not> isDigit 10 CHR ''X''"
  by (simp_all add: isDigit_def digitValue_def)

lemma takeWhile_digits:
  assumes "\<forall>d\<in>set ds. isDigit R d" "\<not> isDigit R c"
  shows "takeWhile (isDigit R) (ds @ c # rest) = ds"
  using assms by simp

lemma takeWhile_all_digits:
  assumes "\<forall>d\<in>set ds. isDigit R d"
  shows "takeWhile (isDigit R) ds = ds"
  using assms by simp

lemma parseInt_radix10:
  assumes "\<not> isWhiteSpace d" "d \<noteq> CHR ''-''" "d \<noteq> CHR ''+''"
    and "\<not> (d = CHR ''0'' \<and> (\<exists>e r. S = e # r \<and> (e = CHR ''x'' \<or> e = CHR ''X'')))"
    and "takeWhile (isDigit 10) (d # S) = Z"
  shows "parseInt (d # S) = (if Z = [] then NaN else toNumber (digitsValue 10 Z))"
proof (cases S)
  case Nil
  with assms show ?thesis
    unfolding parseInt_def by (auto simp: Let_def)
next
  case (Cons e r)
  with assms(4) have "\<not> (d = CHR ''0'' \<and> (e = CHR ''x'' \<or> e = CHR ''X''))" by simp
  with assms(1,2,3) have "parseInt (d # e # r)
      = (if takeWhile (isDigit 10) (d # e # r) = [] then NaN
         else toNumber (digitsValue 10 (takeWhile (isDigit 10) (d # e # r))))"
    unfolding parseInt_def by (auto simp add: Let_def simp del: takeWhile.simps)
  with assms(5) Cons show ?thesis by simp
qed

lemma parseInt_decimal:
  assumes ne: "ds \<noteq> []" and dig: "\<forall>d\<in>set ds. isDigit 10 d"
  shows "parseInt ds = toNumber (digitsValue 10 ds)"
proof -
  from ne obtain d ds' where ds: "ds = d # ds'" by (cases ds) auto
  with dig have d: "isDigit 10 d" by simp
  note p = decimal_digit_plain [OF d]
  have tw: "takeWhile (isDigit 10) (d # ds') = d # ds'"
    using dig ds takeWhile_all_digits by blast
  have nohex: "\<not> (d = CHR ''0'' \<and> (\<exists>e r. ds' = e # r \<and> (e = CHR ''x'' \<or> e = CHR ''X'')))"
    using dig ds x_no_decimal_digit by auto
  show ?thesis
    unfolding ds using parseInt_radix10 [OF p(1,2,3) nohex tw] by simp
qed

lemma parseInt_decimal_then:
  assumes ne: "ds \<noteq> []" and dig: "\<forall>d\<in>set ds. isDigit 10 d" and c: "\<not> isDigit 10 c"
    and nx: "\<not> (ds = ''0'' \<and> (c = CHR ''x'' \<or> c = CHR ''X''))"
  shows "parseInt (ds @ c # rest) = toNumber (digitsValue 10 ds)"
proof -
  from ne obtain d ds' where ds: "ds = d # ds'" by (cases ds) auto
  with dig have d: "isDigit 10 d" by simp
  note p = decimal_digit_plain [OF d]
  have tw: "takeWhile (isDigit 10) (d # (ds' @ c # rest)) = d # ds'"
    using takeWhile_digits [OF dig c, of rest] ds by simp
  have nohex: "\<not> (d = CHR ''0'' \<and> (\<exists>e r. ds' @ c # rest = e # r \<and> (e = CHR ''x'' \<or> e = CHR ''X'')))"
  proof (cases ds')
    case Nil
    with nx ds show ?thesis by auto
  next
    case (Cons e r)
    with dig ds have "isDigit 10 e" by simp
    then have "e \<noteq> CHR ''x''" "e \<noteq> CHR ''X''" using x_no_decimal_digit by auto
    with Cons show ?thesis by simp
  qed
  show ?thesis
    unfolding ds using parseInt_radix10 [OF p(1,2,3) nohex tw] by simp
qed

text \<open>
  A string that starts with \<^verbatim>\<open>0x\<close> or \<^verbatim>\<open>0X\<close> is read in radix 16, and is NaN when
  no hexadecimal digit follows the prefix.
\<close>

lemma parseInt_hexadecimal:
  assumes "x = CHR ''x'' \<or> x = CHR ''X''"
  shows "parseInt (CHR ''0'' # x # S)
           = (if takeWhile (isDigit 16) S = [] then NaN
              else toNumber (digitsValue 16 (takeWhile (isDigit 16) S)))"
  using assms unfolding parseInt_def
  by (auto simp add: Let_def isWhiteSpace_def simp del: takeWhile.simps)

lemma toNumber_not_NaN: "toNumber m \<noteq> NaN"
  by (simp add: toNumber_def)

lemma digitsValue_nonneg: "0 \<le> a \<Longrightarrow> 0 \<le> foldl (\<lambda>a c. a * int R + int (the (digitValue c))) a Z"
  by (induction Z arbitrary: a) auto

lemma toInt4_toNumber:
  assumes "- 2147483648 \<le> m" "m \<le> 2147483647"
  shows "toInt4 (toNumber m) = Some (word_of_int m)"
  using assms by (simp add: toInt4_def toNumber_def)

lemma toInt4_not_NaN: "toInt4 n = Some w \<Longrightarrow> n \<noteq> NaN"
  by (auto simp: toInt4_def)

section \<open>Properties of the storage layer and the routes\<close>

lemma deleteTaskRoute_400: "(status (fst (deleteTaskRoute idParam s)) = 400) = (parseInt idParam = NaN)"
  by (auto simp: deleteTaskRoute_def Let_def split: sum.splits prod.splits)

lemma patchTask_400: "(status (fst (patchTask idParam b now s)) = 400) = (parseInt idParam = NaN)"
  by (auto simp: patchTask_def Let_def split: option.splits prod.splits sum.splits)

lemma patchTask_no_validation_error:
  "payload (fst (patchTask idParam b now s)) \<noteq> ValidationErrors e"
  by (auto simp: patchTask_def Let_def split: option.splits prod.splits sum.splits)

lemma deleteTaskRoute_store_error:
  assumes "parseInt idParam \<noteq> NaN" "deleteTask (parseInt idParam) s = Inl e"
  shows "deleteTaskRoute idParam s
           = (\<lparr>status = 500, payload = Message ''Failed to delete task''\<rparr>, s)"
  using assms by (simp add: deleteTaskRoute_def)

lemma map_no_match:
  "\<forall>t\<in>set ts. task_id t \<noteq> i \<Longrightarrow> map (\<lambda>t. if task_id t = i then f t else t) ts = ts"
  by (induction ts) auto

lemma filter_no_match:
  "\<forall>t\<in>set ts. task_id t \<noteq> i \<Longrightarrow> filter (\<lambda>t. task_id t \<noteq> i) ts = ts"
  by (induction ts) auto

lemma updateRows_no_match:
  assumes "\<forall>t\<in>set (rows s). task_id t \<noteq> i"
  shows "updateRows i c ca s = (None, s)"
proof -
  have "filter (\<lambda>t. task_id t = i) (rows s) = []"
    using assms by (simp add: filter_empty_conv)
  then show ?thesis
    using map_no_match [OF assms] by (simp add: updateRows_def)
qed

lemma patchUpdates_boolean:
  "b ''completed'' = Some (JBool c) \<Longrightarrow>
     patchUpdates b now = \<lparr>u_completed = Some (JBool c), u_completedAt = Some (if c then Some now else None)\<rparr>"
  by (simp add: patchUpdates_def)

lemma updateTask_read_as_boolean:
  "toInt4 idNum = Some i \<Longrightarrow> toColumn v = PgBool x \<Longrightarrow>
     updateTask idNum \<lparr>u_completed = Some v, u_completedAt = Some ca\<rparr> s
       = Inr (updateRows i (Some x) (Some ca) s)"
  by (simp add: updateTask_def)

lemma updateTask_boolean:
  "toInt4 idNum = Some i \<Longrightarrow>
     updateTask idNum \<lparr>u_completed = Some (JBool c), u_completedAt = Some ca\<rparr> s
       = Inr (updateRows i (Some c) (Some ca) s)"
  by (simp add: updateTask_read_as_boolean)

lemma updateTask_out_of_range:
  "toInt4 idNum = None \<Longrightarrow> updateTask idNum u s = Inl StoreError"
  by (simp add: updateTask_def)

lemma updateTask_not_read:
  assumes "toColumn v = PgInvalid \<or> toColumn v = PgNull \<and> filter (\<lambda>t. task_id t = i) (rows s) \<noteq> []"
    and "toInt4 idNum = Some i"
  shows "updateTask idNum \<lparr>u_completed = Some v, u_completedAt = Some ca\<rparr> s = Inl StoreError"
  using assms by (auto simp: updateTask_def)

lemma updateRows_match:
  assumes "filter (\<lambda>t. task_id t = i) (rows s) = t # ts"
  shows "updateRows i c ca s
     = (Some (applyUpdates c ca t),
        s\<lparr>rows := map (\<lambda>u. if task_id u = i then applyUpdates c ca u else u) (rows s)\<rparr>)"
  using assms by (simp add: updateRows_def)

lemma updated_rows_hold:
  assumes "\<And>u. task_id (f u) = task_id u" and "\<And>u. P (f u)"
    and "u \<in> set (map (\<lambda>u. if task_id u = i then f u else u) xs)" and "task_id u = i"
  shows "P u"
proof -
  from assms(3) obtain v where v: "v \<in> set xs" "u = (if task_id v = i then f v else v)"
    by auto
  show ?thesis
  proof (cases "task_id v = i")
    case True
    with v assms(2) show ?thesis by simp
  next
    case False
    with v assms(4) show ?thesis by simp
  qed
qed

lemma patchTask_no_completed:
  assumes "b ''completed'' = None" "parseInt idParam \<noteq> NaN"
  shows "patchTask idParam b now s
           = (\<lparr>status = 500, payload = Message ''Failed to update task''\<rparr>, s)"
  using assms by (simp add: patchTask_def patchUpdates_def noUpdates_def updateTask_def)

lemma patchTask_store_error:
  assumes "parseInt idParam \<noteq> NaN" "updateTask (parseInt idParam) (patchUpdates b now) s = Inl e"
  shows "patchTask idParam b now s
           = (\<lparr>status = 500, payload = Message ''Failed to update task''\<rparr>, s)"
  using assms by (simp add: patchTask_def)


lemma patchTask_out_of_range:
  assumes "parseInt idParam \<noteq> NaN" "toInt4 (parseInt idParam) = None"
  shows "patchTask idParam b now s
           = (\<lparr>status = 500, payload = Message ''Failed to update task''\<rparr>, s)"
  using assms by (simp add: patchTask_def updateTask_out_of_range)






lemma placeRow_filter_single:
  "filter P (orderRows ts) = [t]" if "filter_mset P (mset ts) = {#t#}"
proof -
  have "mset (filter P (orderRows ts)) = {#t#}"
    using that by (simp add: mset_orderRows)
  then show ?thesis by (simp only: mset_single_iff)
qed

lemma updateTask_result:
  assumes "updateTask idNum u s = Inr (r', s')"
  shows "(r', s') = (None, s) \<or> (\<exists>i c ca. updateRows i c ca s = (r', s'))"
proof (cases "toInt4 idNum")
  case None
  with assms show ?thesis by (simp add: updateTask_def split: if_splits)
next
  case (Some i)
  show ?thesis
  proof (cases "map_option toColumn (u_completed u)")
    case None
    with assms Some show ?thesis
      by (auto simp: updateTask_def split: if_splits)
  next
    case (Some p)
    with assms \<open>toInt4 idNum = Some i\<close> show ?thesis
      by (cases p) (auto simp: updateTask_def split: if_splits)
  qed
qed

text \<open>The ids in the table and in the responses lie below the next value of the sequence.\<close>

lemma unat_new_id:
  assumes "n \<le> 2147483647"
  shows "unat (of_nat n :: 32 word) = n"
  using assms by (simp add: unat_of_nat)

lemma payload_ids_below:
  assumes below: "\<forall>t\<in>set (rows s). unat (task_id t) < nextId s"
  shows "(\<forall>t\<in>set (rows (snd (handle r s))). unat (task_id t) < nextId (snd (handle r s)))
       \<and> (\<forall>t\<in>set (payloadTasks (payload (fst (handle r s)))).
             unat (task_id t) < nextId (snd (handle r s)))"
proof (cases r)
  case GET
  with below show ?thesis
    by (simp add: getTasks_def getAllTasks_def set_orderRows)
next
  case (POST b now)
  have "unat (of_nat (nextId s) :: 32 word) < Suc (nextId s)" if "\<not> 2147483647 < nextId s"
    using that unat_new_id [of "nextId s"] by simp
  with below POST show ?thesis
    by (auto simp: postTask_def createTask_def Let_def less_Suc_eq split: sum.splits)
next
  case (PATCH idParam b now)
  have keep: "task_id (applyUpdates c ca t) = task_id t" for c ca t
    by (simp add: applyUpdates_def split: option.splits)
  have rows_upd: "\<forall>t\<in>set (rows (snd (updateRows i c ca s))).
                    unat (task_id t) < nextId (snd (updateRows i c ca s))"
    for i c ca
    using below by (auto simp: updateRows_def Let_def keep)
  have ret_upd: "fst (updateRows i c ca s) = Some t \<Longrightarrow>
                    unat (task_id t) < nextId (snd (updateRows i c ca s))"
    for i c ca t
  proof -
    assume a: "fst (updateRows i c ca s) = Some t"
    then obtain u us where f: "filter (\<lambda>t. task_id t = i) (rows s) = u # us" and t: "t = applyUpdates c ca u"
      by (auto simp: updateRows_def Let_def split: list.splits)
    have "u \<in> set (filter (\<lambda>t. task_id t = i) (rows s))"
      unfolding f by simp
    then have "u \<in> set (rows s)" by simp
    with below t show ?thesis by (simp add: updateRows_def Let_def keep)
  qed
  have upd: "updateTask idNum u s = Inr (r', s') \<Longrightarrow>
          (\<forall>t\<in>set (rows s'). unat (task_id t) < nextId s')
          \<and> (\<forall>t. r' = Some t \<longrightarrow> unat (task_id t) < nextId s')"
    for idNum u r' s'
  proof -
    assume u: "updateTask idNum u s = Inr (r', s')"
    from updateTask_result [OF u]
    show "(\<forall>t\<in>set (rows s'). unat (task_id t) < nextId s')
        \<and> (\<forall>t. r' = Some t \<longrightarrow> unat (task_id t) < nextId s')"
    proof
      assume "(r', s') = (None, s)"
      with below show ?thesis by simp
    next
      assume "\<exists>i c ca. updateRows i c ca s = (r', s')"
      then obtain i c ca where e: "updateRows i c ca s = (r', s')" by auto
      from rows_upd [of i c ca] ret_upd [of i c ca] e show ?thesis by simp
    qed
  qed
  show ?thesis
    unfolding PATCH handle.simps
    using below upd
    by (auto simp: patchTask_def Let_def split: option.splits sum.splits prod.splits)
next
  case (DELETE idParam)
  with below show ?thesis
    by (auto simp: deleteTaskRoute_def deleteTask_def Let_def split: option.splits)
qed

lemma nextId_mono: "nextId s \<le> nextId (snd (handle r s))"
proof (cases r)
  case GET
  then show ?thesis by (simp add: getTasks_def)
next
  case (POST b now)
  then show ?thesis by (simp add: postTask_def createTask_def Let_def split: sum.splits)
next
  case (PATCH idParam b now)
  have "nextId s' = nextId s" if u: "updateTask idNum u s = Inr (r', s')" for idNum u r' s'
    using updateTask_result [OF u] by (auto simp: updateRows_def Let_def)
  then show ?thesis
    unfolding PATCH handle.simps
    by (auto simp: patchTask_def Let_def split: option.splits sum.splits prod.splits)
next
  case (DELETE idParam)
  then show ?thesis
    by (auto simp: deleteTaskRoute_def deleteTask_def Let_def split: option.splits)
qed

lemma run_ids_below:
  "\<forall>t\<in>set (rows s). unat (task_id t) < nextId s \<Longrightarrow>
     (\<forall>t\<in>set (rows (snd (run reqs s))). unat (task_id t) < nextId (snd (run reqs s)))
     \<and> (\<forall>i\<in>set (seenIds (fst (run reqs s))). unat i < nextId (snd (run reqs s)))
     \<and> nextId s \<le> nextId (snd (run reqs s))"
proof (induction reqs arbitrary: s)
  case Nil
  then show ?case by (simp add: seenIds_def)
next
  case (Cons r rs)
  let ?s1 = "snd (handle r s)"
  let ?r1 = "fst (handle r s)"
  from payload_ids_below [OF Cons.prems, of r]
  have b1: "\<forall>t\<in>set (rows ?s1). unat (task_id t) < nextId ?s1"
    and p1: "\<forall>t\<in>set (payloadTasks (payload ?r1)). unat (task_id t) < nextId ?s1"
    by simp_all
  note ih = Cons.IH [OF b1]
  have run: "run (r # rs) s = (?r1 # fst (run rs ?s1), snd (run rs ?s1))"
    by (simp add: split_beta)
  have seen: "seenIds (?r1 # resps) = map task_id (payloadTasks (payload ?r1)) @ seenIds resps" for resps
    by (simp add: seenIds_def)
  have m: "nextId s \<le> nextId ?s1" by (rule nextId_mono)
  show ?case
    unfolding run fst_conv snd_conv seen
    using ih p1 m by auto
qed

section \<open>Evaluation of the model on concrete inputs\<close>

lemmas parseInt_eval =
  parseInt_def toNumber_def isWhiteSpace_def isDigit_def digitValue_def digitsValue_def toInt4_def

lemmas boolin_eval = boolin_def isspace_def tolower_def

lemmas example_eval = exampleStore_def taskA_def taskB_def taskC_def

lemma parseInt_examples:
  "parseInt ''12'' = Integer 12" "parseInt ''12abc'' = Integer 12" "parseInt ''2.9'' = Integer 2"
  "parseInt '' 2'' = Integer 2" "parseInt ''-7'' = Integer (- 7)" "parseInt ''+7'' = Integer 7"
  "parseInt ''0X1f'' = Integer 31" "parseInt ''0xB'' = Integer 11" "parseInt ''0xyz'' = NaN"
  "parseInt ''abc'' = NaN" "parseInt '''' = NaN" "parseInt ''-'' = NaN"
  "parseInt ''9007199254740991'' = Integer 9007199254740991"
  "parseInt ''9007199254740992'' = Unsafe"
  by (simp_all add: parseInt_eval)

lemma toInt4_examples:
  "toInt4 (parseInt ''1'') = Some 1" "toInt4 (parseInt ''2'') = Some 2"
  "toInt4 (parseInt ''3'') = Some 3" "toInt4 (parseInt ''2abc'') = Some 2"
  "toInt4 (parseInt ''9999'') = Some 9999"
  "toInt4 (parseInt ''2147483647'') = Some 2147483647"
  "toInt4 (parseInt ''2147483648'') = None" "toInt4 (parseInt ''-2147483649'') = None"
  "toInt4 (parseInt ''99999999999999999999'') = None" "toInt4 NaN = None"
  by (simp_all add: parseInt_eval)

lemma boolin_examples:
  "boolin ''true'' = Some True" "boolin '' TRUE '' = Some True" "boolin ''t'' = Some True"
  "boolin ''yes'' = Some True" "boolin ''on'' = Some True" "boolin ''1'' = Some True"
  "boolin ''false'' = Some False" "boolin ''F'' = Some False" "boolin ''no'' = Some False"
  "boolin ''off'' = Some False" "boolin ''of'' = Some False" "boolin ''0'' = Some False"
  "boolin '''' = None" "boolin ''o'' = None" "boolin ''maybe'' = None" "boolin ''truex'' = None"
  "boolin ''10'' = None" "boolin ''{}'' = None"
  by (simp_all add: boolin_eval)

lemma toColumn_examples:
  "toColumn (JBool True) = PgBool True" "toColumn (JBool False) = PgBool False"
  "toColumn JNull = PgNull" "toColumn (JNum 1) = PgBool True" "toColumn (JNum 0) = PgBool False"
  "toColumn (JNum 2) = PgInvalid" "toColumn JFraction = PgInvalid"
  "toColumn (JStr ''false'') = PgBool False" "toColumn (JStr ''TRUE'') = PgBool True"
  "toColumn (JStr ''maybe'') = PgInvalid" "toColumn (JStr '''') = PgInvalid"
  "toColumn (JArr []) = PgInvalid" "toColumn (JObj []) = PgInvalid"
  by (simp_all add: boolin_eval)

lemma truthy_examples:
  "truthy (JNum 0) = False" "truthy (JNum 2) = True" "truthy (JStr '''') = False"
  "truthy (JStr ''false'') = True" "truthy JNull = False" "truthy (JArr []) = True"
  "truthy (JObj []) = True"
  by simp_all

section \<open>Claims\<close>



text \<open>
  C2. For every store, \<^verbatim>\<open>list()\<close> returns exactly the rows of the table (after a delete:
  the rows that were not deleted), pending tasks before completed ones and, within each
  group, the most recently created first. A store holding A (pending, created first),
  B (completed, created second) and C (pending, created last) is listed as C, A, B.
\<close>

theorem getAllTasks_two_key_order:
  "mset (getAllTasks s) = mset (rows s)
   \<and> (toInt4 idNum = Some i \<longrightarrow>
        (\<exists>d s'. deleteTask idNum s = Inr (d, s')
           \<and> mset (getAllTasks s') = filter_mset (\<lambda>t. task_id t \<noteq> i) (mset (rows s))))
   \<and> sorted_wrt (\<lambda>a b. (completed a \<longrightarrow> completed b)
                     \<and> (completed a = completed b \<longrightarrow> createdAt b \<le> createdAt a))
        (getAllTasks s)
   \<and> (mset (rows s) = {#A, B, C#} \<and> \<not> completed A \<and> completed B \<and> \<not> completed C
        \<and> createdAt A < createdAt B \<and> createdAt B < createdAt C
      \<longrightarrow> getAllTasks s = [C, A, B])"
proof -
  have p: "mset (getAllTasks s) = mset (rows s)"
    by (simp add: getAllTasks_def mset_orderRows)
  have d: "\<exists>d s'. deleteTask idNum s = Inr (d, s')
           \<and> mset (getAllTasks s') = filter_mset (\<lambda>t. task_id t \<noteq> i) (mset (rows s))"
    if "toInt4 idNum = Some i"
    using that by (simp add: getAllTasks_def mset_orderRows deleteTask_def)
  have o: "sorted_wrt orderBy (getAllTasks s)"
    by (simp add: getAllTasks_def sorted_orderRows)
  then have o': "sorted_wrt (\<lambda>a b. (completed a \<longrightarrow> completed b)
                     \<and> (completed a = completed b \<longrightarrow> createdAt b \<le> createdAt a))
        (getAllTasks s)"
    by (simp add: orderBy_iff [abs_def])
  have e: "getAllTasks s = [C, A, B]"
    if "mset (rows s) = {#A, B, C#}" "\<not> completed A" "completed B" "\<not> completed C"
       "createdAt A < createdAt B" "createdAt B < createdAt C"
    using three_rows_ordered [OF _ o that(2-6)] p that(1) by simp
  from p d o' e show ?thesis by blast
qed

theorem getAllTasks_two_key_order_witness:
  "mset (rows exampleStore) = {#taskA, taskB, taskC#}
   \<and> \<not> completed taskA \<and> completed taskB \<and> \<not> completed taskC
   \<and> createdAt taskA < createdAt taskB \<and> createdAt taskB < createdAt taskC
   \<and> getAllTasks exampleStore = [taskC, taskA, taskB]
   \<and> toInt4 (Integer 2) = Some 2
   \<and> deleteTask (Integer 2) exampleStore = Inr (True, \<lparr>rows = [taskA, taskC], nextId = 4\<rparr>)
   \<and> getAllTasks \<lparr>rows = [taskA, taskC], nextId = 4\<rparr> = [taskC, taskA]"
proof -
  have i: "toInt4 (Integer 2) = Some 2"
    by (simp add: toInt4_def)
  have d: "deleteTask (Integer 2) exampleStore = Inr (True, \<lparr>rows = [taskA, taskC], nextId = 4\<rparr>)"
    by (simp add: deleteTask_def toInt4_def example_eval)
  have l: "getAllTasks \<lparr>rows = [taskA, taskC], nextId = 4\<rparr> = [taskC, taskA]"
    by (simp add: getAllTasks_def orderBy_def taskA_def taskC_def)
  show ?thesis
    using getAllTasks_two_key_order [of exampleStore "Integer 2" 2 taskA taskB taskC] i d l
    by (simp add: example_eval)
qed

text \<open>
  C3. The create boundary is meant to reject an empty title and a title of more than 100
  characters. \<^verbatim>\<open>insertTaskSchema\<close> checks only that the title is a string, so the
  route answers 201 and persists the row for the empty title and for 101 characters, as it
  does for 100 characters.
\<close>

theorem postTask_title_unchecked:
  "postTask (Map.empty(''title'' \<mapsto> JStr '''')) 7 emptyStore
     = (\<lparr>status = 201,
         payload = OneTask \<lparr>task_id = 1, title = '''', completed = False, createdAt = 7,
                            completedAt = None\<rparr>\<rparr>,
        \<lparr>rows = [\<lparr>task_id = 1, title = '''', completed = False, createdAt = 7,
                  completedAt = None\<rparr>], nextId = 2\<rparr>)
   \<and> status (fst (postTask (Map.empty(''title'' \<mapsto> JStr (replicate 101 CHR ''a''))) 7 emptyStore)) = 201
   \<and> map (\<lambda>t. length (title t))
        (rows (snd (postTask (Map.empty(''title'' \<mapsto> JStr (replicate 101 CHR ''a''))) 7 emptyStore)))
       = [101]
   \<and> status (fst (postTask (Map.empty(''title'' \<mapsto> JStr (replicate 100 CHR ''a''))) 7 emptyStore)) = 201"
  by (simp add: postTask_def insertTaskSchema_parse_def createTask_def emptyStore_def Let_def)

text \<open>
  C4 (as amended). \<^verbatim>\<open>setCompletion(id, c)\<close> on an id within the 32-bit range of the id
  column that no row has: \<^verbatim>\<open>updateTask\<close> returns \<^verbatim>\<open>undefined\<close>, the route answers
  404, and the store is exactly what it was. On an id outside that range the statement
  fails, the route answers 500, and the store is what it was as well.
\<close>

theorem setCompletion_not_found:
  "(toInt4 (parseInt idParam) = Some i \<and> (\<forall>t\<in>set (rows s). task_id t \<noteq> i)
      \<and> b ''completed'' = Some (JBool c)
    \<longrightarrow> updateTask (parseInt idParam) (patchUpdates b now) s = Inr (None, s)
        \<and> patchTask idParam b now s
            = (\<lparr>status = 404, payload = Message ''Task not found''\<rparr>, s))
   \<and> (parseInt idParam \<noteq> NaN \<and> toInt4 (parseInt idParam) = None
    \<longrightarrow> patchTask idParam b now s
            = (\<lparr>status = 500, payload = Message ''Failed to update task''\<rparr>, s))"
proof -
  have 1: "updateTask (parseInt idParam) (patchUpdates b now) s = Inr (None, s)
        \<and> patchTask idParam b now s
            = (\<lparr>status = 404, payload = Message ''Task not found''\<rparr>, s)"
    if h: "toInt4 (parseInt idParam) = Some i" "\<forall>t\<in>set (rows s). task_id t \<noteq> i"
      "b ''completed'' = Some (JBool c)"
  proof -
    have u: "updateTask (parseInt idParam) (patchUpdates b now) s = Inr (None, s)"
      using h by (simp add: patchUpdates_boolean updateTask_boolean updateRows_no_match)
    then show ?thesis
      using toInt4_not_NaN [OF h(1)] by (simp add: patchTask_def)
  qed
  have 2: "patchTask idParam b now s
            = (\<lparr>status = 500, payload = Message ''Failed to update task''\<rparr>, s)"
    if "parseInt idParam \<noteq> NaN" "toInt4 (parseInt idParam) = None"
    using that by (rule patchTask_out_of_range)
  from 1 2 show ?thesis by blast
qed

theorem setCompletion_not_found_witness:
  "toInt4 (parseInt ''9999'') = Some 9999 \<and> map task_id (rows exampleStore) = [1, 2, 3]
   \<and> patchTask ''9999'' (setCompletionBody True) 40 exampleStore
       = (\<lparr>status = 404, payload = Message ''Task not found''\<rparr>, exampleStore)
   \<and> parseInt ''-2147483649'' = Integer (- 2147483649)
   \<and> toInt4 (parseInt ''-2147483649'') = None
   \<and> patchTask ''-2147483649'' (setCompletionBody True) 40 exampleStore
       = (\<lparr>status = 500, payload = Message ''Failed to update task''\<rparr>, exampleStore)"
proof -
  have p: "toInt4 (parseInt ''9999'') = Some 9999"
    "parseInt ''-2147483649'' = Integer (- 2147483649)"
    "toInt4 (parseInt ''-2147483649'') = None"
    by (simp_all add: parseInt_eval)
  have r: "\<forall>t\<in>set (rows exampleStore). task_id t \<noteq> 9999"
    by (simp add: example_eval)
  have m: "map task_id (rows exampleStore) = [1, 2, 3]"
    by (simp add: example_eval)
  show ?thesis
    using setCompletion_not_found [of "''9999''" 9999 exampleStore "setCompletionBody True" True 40]
      setCompletion_not_found [of "''-2147483649''" _ exampleStore "setCompletionBody True" _ 40]
      p r m
    by (simp add: setCompletionBody_def)
qed

text \<open>
  C4 as first stated fails outside the range of the id column: no task has the id
  2147483648, and the answer is 500, not 404.
\<close>

theorem setCompletion_not_found_counterexample:
  "map task_id (rows exampleStore) = [1, 2, 3]
   \<and> parseInt ''2147483648'' = Integer 2147483648
   \<and> updateTask (parseInt ''2147483648'') (patchUpdates (setCompletionBody True) 40) exampleStore
       = Inl StoreError
   \<and> patchTask ''2147483648'' (setCompletionBody True) 40 exampleStore
       = (\<lparr>status = 500, payload = Message ''Failed to update task''\<rparr>, exampleStore)"
  by (simp add: example_eval parseInt_eval patchTask_def updateTask_def patchUpdates_def
      setCompletionBody_def)

text \<open>
  C5. \<^verbatim>\<open>setCompletion(id, c)\<close> on an existing task answers 200 with the task in which
  \<open>completed\<close> is \<open>c\<close> and \<open>completedAt\<close> is the current time when \<open>c\<close> is true and
  null when it is false; the new values do not depend on the previous ones, so completing a
  completed task stamps it again. Every row with the id is updated so, and no other row.
\<close>

theorem setCompletion_restamps:
  "toInt4 (parseInt idParam) = Some i \<and> b ''completed'' = Some (JBool c)
     \<and> filter (\<lambda>u. task_id u = i) (rows s) = t # ts
   \<longrightarrow> patchTask idParam b now s
         = (\<lparr>status = 200,
             payload = OneTask (t\<lparr>completed := c, completedAt := if c then Some now else None\<rparr>)\<rparr>,
            s\<lparr>rows := map (\<lambda>u. if task_id u = i
                                then u\<lparr>completed := c, completedAt := if c then Some now else None\<rparr>
                                else u) (rows s)\<rparr>)
       \<and> (\<forall>u\<in>set (rows (snd (patchTask idParam b now s))).
             task_id u = i \<longrightarrow> completed u = c \<and> completedAt u = (if c then Some now else None))"
proof (intro impI, elim conjE)
  assume h: "toInt4 (parseInt idParam) = Some i" "b ''completed'' = Some (JBool c)"
    "filter (\<lambda>u. task_id u = i) (rows s) = t # ts"
  let ?f = "\<lambda>u::task. u\<lparr>completed := c, completedAt := if c then Some now else None\<rparr>"
  have "updateTask (parseInt idParam) (patchUpdates b now) s
          = Inr (Some (?f t), s\<lparr>rows := map (\<lambda>u. if task_id u = i then ?f u else u) (rows s)\<rparr>)"
    using h by (simp add: patchUpdates_boolean updateTask_boolean updateRows_match applyUpdates_def)
  then have eq: "patchTask idParam b now s
         = (\<lparr>status = 200, payload = OneTask (?f t)\<rparr>,
            s\<lparr>rows := map (\<lambda>u. if task_id u = i then ?f u else u) (rows s)\<rparr>)"
    using toInt4_not_NaN [OF h(1)] by (simp add: patchTask_def)
  have rows': "rows (snd (patchTask idParam b now s))
                 = map (\<lambda>u. if task_id u = i then ?f u else u) (rows s)"
    by (simp add: eq)
  have "completed u = c \<and> completedAt u = (if c then Some now else None)"
    if "u \<in> set (rows (snd (patchTask idParam b now s)))" "task_id u = i" for u
    using that unfolding rows'
    by (rule updated_rows_hold [where f = ?f, rotated 2]) simp_all
  with eq show "patchTask idParam b now s
         = (\<lparr>status = 200, payload = OneTask (?f t)\<rparr>,
            s\<lparr>rows := map (\<lambda>u. if task_id u = i then ?f u else u) (rows s)\<rparr>)
       \<and> (\<forall>u\<in>set (rows (snd (patchTask idParam b now s))).
             task_id u = i \<longrightarrow> completed u = c \<and> completedAt u = (if c then Some now else None))"
    by blast
qed

theorem setCompletion_restamps_witness:
  "toInt4 (parseInt ''2'') = Some 2 \<and> filter (\<lambda>u. task_id u = 2) (rows exampleStore) = [taskB]
   \<and> completed taskB \<and> completedAt taskB = Some 25
   \<and> patchTask ''2'' (setCompletionBody True) 40 exampleStore
       = (\<lparr>status = 200, payload = OneTask (taskB\<lparr>completedAt := Some 40\<rparr>)\<rparr>,
          \<lparr>rows = [taskA, taskB\<lparr>completedAt := Some 40\<rparr>, taskC], nextId = 4\<rparr>)"
proof -
  have p: "toInt4 (parseInt ''2'') = Some 2"
    by (simp add: parseInt_eval)
  have f: "filter (\<lambda>u. task_id u = 2) (rows exampleStore) = [taskB]"
    by (simp add: example_eval)
  show ?thesis
    using setCompletion_restamps [of "''2''" 2 "setCompletionBody True" True exampleStore taskB "[]"
        40] p f
    by (simp add: setCompletionBody_def example_eval)
qed

text \<open>
  C6 (as amended). For an id within the 32-bit range of the id column \<^verbatim>\<open>delete(id)\<close>
  returns a boolean: true exactly when a row with the id existed, and then the rows with
  that id are gone. A second call on the same id returns false and changes nothing, and no
  listed task has the id after the first call. For an id outside the range the call raises.
\<close>

theorem deleteTask_reports_removal:
  "(toInt4 idNum = Some i \<longrightarrow>
      (\<exists>s1. deleteTask idNum s = Inr (\<exists>t\<in>set (rows s). task_id t = i, s1)
         \<and> rows s1 = filter (\<lambda>t. task_id t \<noteq> i) (rows s) \<and> nextId s1 = nextId s
         \<and> deleteTask idNum s1 = Inr (False, s1)
         \<and> (\<forall>t\<in>set (getAllTasks s1). task_id t \<noteq> i)))
   \<and> (toInt4 idNum = None \<longrightarrow> deleteTask idNum s = Inl StoreError)"
proof -
  let ?s1 = "s\<lparr>rows := filter (\<lambda>t. task_id t \<noteq> i) (rows s)\<rparr>"
  have "deleteTask idNum s = Inr (\<exists>t\<in>set (rows s). task_id t = i, ?s1)
         \<and> rows ?s1 = filter (\<lambda>t. task_id t \<noteq> i) (rows s) \<and> nextId ?s1 = nextId s
         \<and> deleteTask idNum ?s1 = Inr (False, ?s1)
         \<and> (\<forall>t\<in>set (getAllTasks ?s1). task_id t \<noteq> i)"
    if "toInt4 idNum = Some i"
    using that
    by (auto simp: deleteTask_def getAllTasks_def set_orderRows filter_empty_conv Let_def)
  moreover have "deleteTask idNum s = Inl StoreError" if "toInt4 idNum = None"
    using that by (simp add: deleteTask_def)
  ultimately show ?thesis by blast
qed

theorem deleteTask_reports_removal_witness:
  "toInt4 (Integer 2) = Some 2
   \<and> deleteTask (Integer 2) exampleStore = Inr (True, \<lparr>rows = [taskA, taskC], nextId = 4\<rparr>)
   \<and> deleteTask (Integer 2) \<lparr>rows = [taskA, taskC], nextId = 4\<rparr>
       = Inr (False, \<lparr>rows = [taskA, taskC], nextId = 4\<rparr>)
   \<and> getAllTasks \<lparr>rows = [taskA, taskC], nextId = 4\<rparr> = [taskC, taskA]
   \<and> deleteTask (Integer 9) exampleStore = Inr (False, exampleStore)
   \<and> toInt4 (Integer (- 2147483649)) = None
   \<and> deleteTask (Integer (- 2147483649)) exampleStore = Inl StoreError"
proof -
  have i: "toInt4 (Integer 2) = Some 2" "toInt4 (Integer (- 2147483649)) = None"
    by (simp_all add: toInt4_def)
  have d: "deleteTask (Integer 2) exampleStore = Inr (True, \<lparr>rows = [taskA, taskC], nextId = 4\<rparr>)"
    "deleteTask (Integer 2) \<lparr>rows = [taskA, taskC], nextId = 4\<rparr>
       = Inr (False, \<lparr>rows = [taskA, taskC], nextId = 4\<rparr>)"
    "deleteTask (Integer 9) exampleStore = Inr (False, exampleStore)"
    by (simp_all add: deleteTask_def toInt4_def example_eval)
  have l: "getAllTasks \<lparr>rows = [taskA, taskC], nextId = 4\<rparr> = [taskC, taskA]"
    by (simp add: getAllTasks_def orderBy_def taskA_def taskC_def)
  show ?thesis
    using deleteTask_reports_removal [of "Integer 2" 2 exampleStore]
      deleteTask_reports_removal [of "Integer (- 2147483649)" _ exampleStore] i d l
    by simp
qed

text \<open>
  C6 as first stated fails outside the range of the id column: no task has the id
  2147483648, and the call raises where the claim has it return false.
\<close>

theorem deleteTask_raises_counterexample:
  "map task_id (rows exampleStore) = [1, 2, 3]
   \<and> parseInt ''2147483648'' = Integer 2147483648
   \<and> deleteTask (parseInt ''2147483648'') exampleStore = Inl StoreError
   \<and> deleteTaskRoute ''2147483648'' exampleStore
       = (\<lparr>status = 500, payload = Message ''Failed to delete task''\<rparr>, exampleStore)"
  by (simp add: example_eval parseInt_eval deleteTaskRoute_def deleteTask_def)

text \<open>
  C7 (as amended). After any sequence of requests on the empty store, and while the id
  sequence has not passed its last value 2147483647, creating a task with a title \<open>x\<close>
  that holds no code unit 0 and that no stored task has answers 201 with a task that
  carries the title, is pending, has no completion time, was created now, and whose id is
  neither the id of a stored task nor an id that any earlier response has shown; the list
  that follows holds exactly one task with the title, which is that task.
\<close>

theorem create_round_trip:
  "run reqs emptyStore = (resps, s) \<and> b ''title'' = Some (JStr x)
     \<and> CHR 0x00 \<notin> set x \<and> nextId s \<le> 2147483647
     \<and> (\<forall>u\<in>set (rows s). title u \<noteq> x)
   \<longrightarrow> (\<exists>t s'. postTask b now s = (\<lparr>status = 201, payload = OneTask t\<rparr>, s')
          \<and> title t = x \<and> \<not> completed t \<and> completedAt t = None \<and> createdAt t = now
          \<and> task_id t \<notin> set (seenIds resps) \<and> (\<forall>u\<in>set (rows s). task_id u \<noteq> task_id t)
          \<and> filter (\<lambda>u. title u = x) (getAllTasks s') = [t]
          \<and> payload (fst (getTasks s')) = Tasks (getAllTasks s'))"
proof (intro impI, elim conjE)
  assume run: "run reqs emptyStore = (resps, s)" and b: "b ''title'' = Some (JStr x)"
    and nul: "CHR 0x00 \<notin> set x" and seq: "nextId s \<le> 2147483647"
    and x: "\<forall>u\<in>set (rows s). title u \<noteq> x"
  let ?t = "\<lparr>task_id = of_nat (nextId s), title = x, completed = False, createdAt = now,
              completedAt = None\<rparr>"
  let ?s' = "s\<lparr>rows := rows s @ [?t], nextId := nextId s + 1\<rparr>"
  have post: "postTask b now s = (\<lparr>status = 201, payload = OneTask ?t\<rparr>, ?s')"
    using b nul seq
    by (simp add: postTask_def insertTaskSchema_parse_def createTask_def Let_def)
  have "\<forall>t\<in>set (rows emptyStore). unat (task_id t) < nextId emptyStore"
    by (simp add: emptyStore_def)
  from run_ids_below [OF this, of reqs] run
  have rows_below: "\<forall>t\<in>set (rows s). unat (task_id t) < nextId s"
    and seen_below: "\<forall>i\<in>set (seenIds resps). unat i < nextId s"
    by simp_all
  have new: "unat (task_id ?t) = nextId s"
    using seq by (simp add: unat_new_id)
  have fresh1: "task_id ?t \<notin> set (seenIds resps)"
    using seen_below new by auto
  have fresh2: "\<forall>u\<in>set (rows s). task_id u \<noteq> task_id ?t"
    using rows_below new by auto
  have "filter_mset (\<lambda>u. title u = x) (mset (rows s)) = {#}"
    using x by auto
  then have "filter_mset (\<lambda>u. title u = x) (mset (rows ?s')) = {#?t#}"
    by simp
  then have one: "filter (\<lambda>u. title u = x) (getAllTasks ?s') = [?t]"
    unfolding getAllTasks_def by (rule placeRow_filter_single)
  have "postTask b now s = (\<lparr>status = 201, payload = OneTask ?t\<rparr>, ?s')
          \<and> title ?t = x \<and> \<not> completed ?t \<and> completedAt ?t = None \<and> createdAt ?t = now
          \<and> task_id ?t \<notin> set (seenIds resps) \<and> (\<forall>u\<in>set (rows s). task_id u \<noteq> task_id ?t)
          \<and> filter (\<lambda>u. title u = x) (getAllTasks ?s') = [?t]
          \<and> payload (fst (getTasks ?s')) = Tasks (getAllTasks ?s')"
    using post fresh1 fresh2 one by (simp add: getTasks_def)
  then show "\<exists>t s'. postTask b now s = (\<lparr>status = 201, payload = OneTask t\<rparr>, s')
          \<and> title t = x \<and> \<not> completed t \<and> completedAt t = None \<and> createdAt t = now
          \<and> task_id t \<notin> set (seenIds resps) \<and> (\<forall>u\<in>set (rows s). task_id u \<noteq> task_id t)
          \<and> filter (\<lambda>u. title u = x) (getAllTasks s') = [t]
          \<and> payload (fst (getTasks s')) = Tasks (getAllTasks s')"
    by blast
qed

theorem create_round_trip_witness:
  "run [POST (Map.empty(''title'' \<mapsto> JStr ''a'')) 5, DELETE ''1''] emptyStore
     = ([\<lparr>status = 201,
          payload = OneTask \<lparr>task_id = 1, title = ''a'', completed = False, createdAt = 5,
                             completedAt = None\<rparr>\<rparr>,
         \<lparr>status = 204, payload = Empty\<rparr>],
        \<lparr>rows = [], nextId = 2\<rparr>)
   \<and> (\<exists>t s'. postTask (Map.empty(''title'' \<mapsto> JStr ''x'')) 9 \<lparr>rows = [], nextId = 2\<rparr>
                 = (\<lparr>status = 201, payload = OneTask t\<rparr>, s')
          \<and> title t = ''x'' \<and> \<not> completed t \<and> completedAt t = None
          \<and> task_id t \<notin> set [1]
          \<and> filter (\<lambda>u. title u = ''x'') (getAllTasks s') = [t])"
proof -
  have r: "run [POST (Map.empty(''title'' \<mapsto> JStr ''a'')) 5, DELETE ''1''] emptyStore
     = ([\<lparr>status = 201,
          payload = OneTask \<lparr>task_id = 1, title = ''a'', completed = False, createdAt = 5,
                             completedAt = None\<rparr>\<rparr>,
         \<lparr>status = 204, payload = Empty\<rparr>],
        \<lparr>rows = [], nextId = 2\<rparr>)"
    by (simp add: emptyStore_def postTask_def insertTaskSchema_parse_def createTask_def
        deleteTaskRoute_def deleteTask_def parseInt_eval Let_def)
  have "\<exists>t s'. postTask (Map.empty(''title'' \<mapsto> JStr ''x'')) 9 \<lparr>rows = [], nextId = 2\<rparr>
                 = (\<lparr>status = 201, payload = OneTask t\<rparr>, s')
          \<and> title t = ''x'' \<and> \<not> completed t \<and> completedAt t = None \<and> createdAt t = 9
          \<and> task_id t \<notin> set [1]
          \<and> filter (\<lambda>u. title u = ''x'') (getAllTasks s') = [t]
          \<and> payload (fst (getTasks s')) = Tasks (getAllTasks s')"
    using create_round_trip [of "[POST (Map.empty(''title'' \<mapsto> JStr ''a'')) 5, DELETE ''1'']"
        "[\<lparr>status = 201,
          payload = OneTask \<lparr>task_id = 1, title = ''a'', completed = False, createdAt = 5,
                             completedAt = None\<rparr>\<rparr>,
         \<lparr>status = 204, payload = Empty\<rparr>]"
        "\<lparr>rows = [], nextId = 2\<rparr>" "Map.empty(''title'' \<mapsto> JStr ''x'')" "''x''" 9]
    unfolding r by (simp add: seenIds_def)
  then have "\<exists>t s'. postTask (Map.empty(''title'' \<mapsto> JStr ''x'')) 9 \<lparr>rows = [], nextId = 2\<rparr>
                 = (\<lparr>status = 201, payload = OneTask t\<rparr>, s')
          \<and> title t = ''x'' \<and> \<not> completed t \<and> completedAt t = None
          \<and> task_id t \<notin> set [1]
          \<and> filter (\<lambda>u. title u = ''x'') (getAllTasks s') = [t]"
    by blast
  with r show ?thesis by blast
qed

text \<open>
  C7 as first stated fails for a title that holds the code unit 0: the title is not empty
  and not in the store, the insert is refused, the answer is 500 and nothing is stored.
  It fails as well once the sequence has passed its last value.
\<close>

theorem create_round_trip_counterexample:
  "postTask (createBody [CHR 0x00]) 9 emptyStore
     = (\<lparr>status = 500, payload = Message ''Failed to create task''\<rparr>, emptyStore)
   \<and> getAllTasks emptyStore = []
   \<and> postTask (createBody ''x'') 9 \<lparr>rows = [], nextId = 2147483648\<rparr>
     = (\<lparr>status = 500, payload = Message ''Failed to create task''\<rparr>,
        \<lparr>rows = [], nextId = 2147483648\<rparr>)"
  by (simp add: postTask_def createBody_def insertTaskSchema_parse_def createTask_def
      emptyStore_def getAllTasks_def)

text \<open>
  C8 (as amended). \<^verbatim>\<open>DELETE /api/tasks/:id\<close>: an id that \<^verbatim>\<open>parseInt\<close> reads as NaN
  is answered with 400 and the store is left as it was; a numeric id for which
  \<^verbatim>\<open>deleteTask\<close> returns false is answered with 404; a removal is answered with 204 and
  an empty body.
\<close>

theorem deleteTaskRoute_statuses:
  "(parseInt idParam = NaN \<longrightarrow>
      deleteTaskRoute idParam s = (\<lparr>status = 400, payload = Message ''Invalid task ID''\<rparr>, s))
   \<and> (parseInt idParam \<noteq> NaN \<and> deleteTask (parseInt idParam) s = Inr (False, s') \<longrightarrow>
      deleteTaskRoute idParam s = (\<lparr>status = 404, payload = Message ''Task not found''\<rparr>, s)
      \<and> s' = s)
   \<and> (parseInt idParam \<noteq> NaN \<and> deleteTask (parseInt idParam) s = Inr (True, s') \<longrightarrow>
      deleteTaskRoute idParam s = (\<lparr>status = 204, payload = Empty\<rparr>, s'))"
proof -
  have same: "s' = s" if d: "deleteTask (parseInt idParam) s = Inr (False, s')"
  proof -
    from d obtain i where i: "toInt4 (parseInt idParam) = Some i"
      by (auto simp: deleteTask_def split: option.splits)
    with d have "filter (\<lambda>t. task_id t = i) (rows s) = []"
      and s': "s' = s\<lparr>rows := filter (\<lambda>t. task_id t \<noteq> i) (rows s)\<rparr>"
      by (auto simp: deleteTask_def Let_def)
    then have "\<forall>t\<in>set (rows s). task_id t \<noteq> i"
      by (simp add: filter_empty_conv)
    then have "filter (\<lambda>t. task_id t \<noteq> i) (rows s) = rows s"
      by (rule filter_no_match)
    with s' show ?thesis by simp
  qed
  show ?thesis
    using same by (auto simp: deleteTaskRoute_def Let_def)
qed

theorem deleteTaskRoute_statuses_witness:
  "parseInt ''abc'' = NaN
   \<and> deleteTaskRoute ''abc'' exampleStore
       = (\<lparr>status = 400, payload = Message ''Invalid task ID''\<rparr>, exampleStore)
   \<and> parseInt ''9'' = Integer 9
   \<and> deleteTask (parseInt ''9'') exampleStore = Inr (False, exampleStore)
   \<and> deleteTaskRoute ''9'' exampleStore
       = (\<lparr>status = 404, payload = Message ''Task not found''\<rparr>, exampleStore)
   \<and> parseInt ''2'' = Integer 2
   \<and> deleteTask (parseInt ''2'') exampleStore = Inr (True, \<lparr>rows = [taskA, taskC], nextId = 4\<rparr>)
   \<and> deleteTaskRoute ''2'' exampleStore
       = (\<lparr>status = 204, payload = Empty\<rparr>, \<lparr>rows = [taskA, taskC], nextId = 4\<rparr>)"
proof -
  have p: "parseInt ''abc'' = NaN" "parseInt ''9'' = Integer 9" "parseInt ''2'' = Integer 2"
    by (simp_all add: parseInt_eval)
  have d: "deleteTask (Integer 9) exampleStore = Inr (False, exampleStore)"
    "deleteTask (Integer 2) exampleStore = Inr (True, \<lparr>rows = [taskA, taskC], nextId = 4\<rparr>)"
    by (simp_all add: deleteTask_def toInt4_def example_eval)
  show ?thesis
    using deleteTaskRoute_statuses [of "''abc''" exampleStore]
      deleteTaskRoute_statuses [of "''9''" exampleStore exampleStore]
      deleteTaskRoute_statuses [of "''2''" exampleStore "\<lparr>rows = [taskA, taskC], nextId = 4\<rparr>"]
      p d
    by simp
qed

text \<open>
  C8 as first stated fails for an id that is no number but starts with one: \<^verbatim>\<open>2abc\<close>
  is answered with 204, and the task with id 2 is removed.
\<close>

theorem deleteTaskRoute_statuses_counterexample:
  "deleteTaskRoute ''2abc'' exampleStore
     = (\<lparr>status = 204, payload = Empty\<rparr>, \<lparr>rows = [taskA, taskC], nextId = 4\<rparr>)"
  by (simp add: deleteTaskRoute_def deleteTask_def parseInt_eval example_eval)

text \<open>
  C9 (as amended). The PATCH route validates no body: no answer is a validation error,
  and the only 400 is the one for an id that \<^verbatim>\<open>parseInt\<close> reads as NaN. Without a
  \<^verbatim>\<open>completed\<close> field the updates object is empty and the store is unchanged. With a
  \<^verbatim>\<open>completed\<close> field of any value \<open>v\<close> the updates object carries \<open>v\<close> itself and
  the timestamp computed from the truthiness of \<open>v\<close>, and the answer is not 400. The store
  applies them to an existing task when it reads \<open>v\<close> as a boolean \<open>x\<close>, that is when
  \<open>v\<close> is the boolean \<open>x\<close>, the number 1 or 0, or a string that is a boolean spelling:
  the task gets \<open>completed = x\<close> and that timestamp. For every other value the update of
  an existing task fails, the answer is 500 and the store is unchanged.
\<close>

theorem patchTask_unvalidated_body:
  "payload (fst (patchTask idParam b now s)) \<noteq> ValidationErrors e
   \<and> (b ''completed'' = None \<longrightarrow>
      patchUpdates b now = noUpdates
      \<and> (parseInt idParam \<noteq> NaN \<longrightarrow>
           status (fst (patchTask idParam b now s)) \<noteq> 400
           \<and> snd (patchTask idParam b now s) = s))
   \<and> (b ''completed'' = Some v \<longrightarrow>
      patchUpdates b now
        = \<lparr>u_completed = Some v, u_completedAt = Some (if truthy v then Some now else None)\<rparr>
      \<and> (parseInt idParam \<noteq> NaN \<longrightarrow> status (fst (patchTask idParam b now s)) \<noteq> 400)
      \<and> (toInt4 (parseInt idParam) = Some i \<and> toColumn v = PgBool x
           \<and> filter (\<lambda>u. task_id u = i) (rows s) = t # ts \<longrightarrow>
         patchTask idParam b now s
           = (\<lparr>status = 200,
               payload = OneTask (t\<lparr>completed := x,
                                    completedAt := if truthy v then Some now else None\<rparr>)\<rparr>,
              s\<lparr>rows := map (\<lambda>u. if task_id u = i
                                  then u\<lparr>completed := x,
                                         completedAt := if truthy v then Some now else None\<rparr>
                                  else u) (rows s)\<rparr>))
      \<and> (toInt4 (parseInt idParam) = Some i \<and> (\<forall>y. toColumn v \<noteq> PgBool y)
           \<and> filter (\<lambda>u. task_id u = i) (rows s) = t # ts \<longrightarrow>
         patchTask idParam b now s
           = (\<lparr>status = 500, payload = Message ''Failed to update task''\<rparr>, s)))
   \<and> (toColumn w = PgBool z) =
       (w = JBool z \<or> w = JNum 1 \<and> z \<or> w = JNum 0 \<and> \<not> z \<or> (\<exists>str. w = JStr str \<and> boolin str = Some z))"
proof -
  have a1: "patchUpdates b now = noUpdates" if "b ''completed'' = None"
    using that by (simp add: patchUpdates_def)
  have a2: "status (fst (patchTask idParam b now s)) \<noteq> 400
           \<and> snd (patchTask idParam b now s) = s"
    if "b ''completed'' = None" "parseInt idParam \<noteq> NaN"
    using that by (simp add: patchTask_no_completed)
  have b1: "patchUpdates b now
        = \<lparr>u_completed = Some v, u_completedAt = Some (if truthy v then Some now else None)\<rparr>"
    if "b ''completed'' = Some v"
    using that by (simp add: patchUpdates_def)
  have b2: "status (fst (patchTask idParam b now s)) \<noteq> 400" if "parseInt idParam \<noteq> NaN"
    using that by (simp add: patchTask_400)
  have b3: "patchTask idParam b now s
           = (\<lparr>status = 200,
               payload = OneTask (t\<lparr>completed := x,
                                    completedAt := if truthy v then Some now else None\<rparr>)\<rparr>,
              s\<lparr>rows := map (\<lambda>u. if task_id u = i
                                  then u\<lparr>completed := x,
                                         completedAt := if truthy v then Some now else None\<rparr>
                                  else u) (rows s)\<rparr>)"
    if h: "b ''completed'' = Some v" "toInt4 (parseInt idParam) = Some i" "toColumn v = PgBool x"
       "filter (\<lambda>u. task_id u = i) (rows s) = t # ts"
  proof -
    have "updateTask (parseInt idParam) (patchUpdates b now) s
            = Inr (updateRows i (Some x) (Some (if truthy v then Some now else None)) s)"
      using h by (simp add: b1 updateTask_read_as_boolean)
    then show ?thesis
      using toInt4_not_NaN [OF h(2)] h(4)
      by (simp add: patchTask_def updateRows_match applyUpdates_def)
  qed
  have b4: "patchTask idParam b now s
           = (\<lparr>status = 500, payload = Message ''Failed to update task''\<rparr>, s)"
    if h: "b ''completed'' = Some v" "toInt4 (parseInt idParam) = Some i"
       "\<forall>y. toColumn v \<noteq> PgBool y" "filter (\<lambda>u. task_id u = i) (rows s) = t # ts"
  proof -
    from h(3) have "toColumn v = PgInvalid \<or> toColumn v = PgNull"
      by (cases "toColumn v") auto
    with h(4) have "toColumn v = PgInvalid
        \<or> toColumn v = PgNull \<and> filter (\<lambda>t. task_id t = i) (rows s) \<noteq> []"
      by auto
    then have "updateTask (parseInt idParam) (patchUpdates b now) s = Inl StoreError"
      using h(1,2) by (simp add: b1 updateTask_not_read)
    then show ?thesis
      using toInt4_not_NaN [OF h(2)] by (simp add: patchTask_store_error)
  qed
  have c: "(toColumn w = PgBool z) =
       (w = JBool z \<or> w = JNum 1 \<and> z \<or> w = JNum 0 \<and> \<not> z \<or> (\<exists>str. w = JStr str \<and> boolin str = Some z))"
    by (cases w) (auto split: option.splits)
  have v: "payload (fst (patchTask idParam b now s)) \<noteq> ValidationErrors e"
    by (rule patchTask_no_validation_error)
  from v a1 a2 b1 b2 b3 b4 c show ?thesis by blast
qed

theorem patchTask_unvalidated_body_witness:
  "patchUpdates Map.empty 40 = noUpdates
   \<and> patchTask ''1'' Map.empty 40 exampleStore
       = (\<lparr>status = 500, payload = Message ''Failed to update task''\<rparr>, exampleStore)
   \<and> toColumn (JStr ''false'') = PgBool False \<and> truthy (JStr ''false'')
   \<and> patchTask ''1'' (Map.empty(''completed'' \<mapsto> JStr ''false'')) 40 exampleStore
       = (\<lparr>status = 200, payload = OneTask (taskA\<lparr>completedAt := Some 40\<rparr>)\<rparr>,
          \<lparr>rows = [taskA\<lparr>completedAt := Some 40\<rparr>, taskB, taskC], nextId = 4\<rparr>)
   \<and> toColumn (JNum 0) = PgBool False \<and> \<not> truthy (JNum 0)
   \<and> patchTask ''2'' (Map.empty(''completed'' \<mapsto> JNum 0)) 40 exampleStore
       = (\<lparr>status = 200,
           payload = OneTask (taskB\<lparr>completed := False, completedAt := None\<rparr>)\<rparr>,
          \<lparr>rows = [taskA, taskB\<lparr>completed := False, completedAt := None\<rparr>, taskC],
             nextId = 4\<rparr>)
   \<and> toColumn JNull = PgNull
   \<and> patchTask ''1'' (Map.empty(''completed'' \<mapsto> JNull)) 40 exampleStore
       = (\<lparr>status = 500, payload = Message ''Failed to update task''\<rparr>, exampleStore)"
proof -
  have p: "toInt4 (parseInt ''1'') = Some 1" "toInt4 (parseInt ''2'') = Some 2"
    "parseInt ''1'' = Integer 1"
    by (simp_all add: parseInt_eval)
  have f: "filter (\<lambda>u. task_id u = 1) (rows exampleStore) = [taskA]"
    "filter (\<lambda>u. task_id u = 2) (rows exampleStore) = [taskB]"
    by (simp_all add: example_eval)
  have c: "toColumn (JStr ''false'') = PgBool False" "toColumn (JNum 0) = PgBool False"
    "toColumn JNull = PgNull"
    by (simp_all add: boolin_eval)
  have e: "patchTask ''1'' Map.empty 40 exampleStore
       = (\<lparr>status = 500, payload = Message ''Failed to update task''\<rparr>, exampleStore)"
    by (simp add: patchTask_no_completed p)
  show ?thesis
    using patchTask_unvalidated_body [where idParam = "''1''" and b = Map.empty and now = 40
        and s = exampleStore]
      patchTask_unvalidated_body [where idParam = "''1''"
        and b = "Map.empty(''completed'' \<mapsto> JStr ''false'')" and now = 40
        and s = exampleStore and v = "JStr ''false''" and i = 1 and x = False and t = taskA
        and ts = "[]"]
      patchTask_unvalidated_body [where idParam = "''2''"
        and b = "Map.empty(''completed'' \<mapsto> JNum 0)" and now = 40
        and s = exampleStore and v = "JNum 0" and i = 2 and x = False and t = taskB
        and ts = "[]"]
      patchTask_unvalidated_body [where idParam = "''1''"
        and b = "Map.empty(''completed'' \<mapsto> JNull)" and now = 40
        and s = exampleStore and v = JNull and i = 1 and t = taskA and ts = "[]"]
      p f c e
    by (simp add: example_eval)
qed

text \<open>
  C9 as first stated fails for a value that the boolean column does not read: the string
  \<^verbatim>\<open>maybe\<close> is not applied to the task, the answer is 500 and the store is unchanged.
\<close>

theorem patchTask_unvalidated_body_counterexample:
  "patchTask ''1'' (completedBody (JStr ''maybe'')) 40 exampleStore
     = (\<lparr>status = 500, payload = Message ''Failed to update task''\<rparr>, exampleStore)
   \<and> patchTask ''1'' (completedBody (JNum 2)) 40 exampleStore
     = (\<lparr>status = 500, payload = Message ''Failed to update task''\<rparr>, exampleStore)
   \<and> patchTask ''1'' (completedBody (JArr [])) 40 exampleStore
     = (\<lparr>status = 500, payload = Message ''Failed to update task''\<rparr>, exampleStore)"
  by (simp add: patchTask_def completedBody_def patchUpdates_def updateTask_def parseInt_eval
      boolin_eval)

text \<open>
  C10 (as amended). PATCH and DELETE answer 400 exactly when \<^verbatim>\<open>parseInt\<close> yields NaN.
  An id string made of decimal digits followed by a character that is no decimal digit,
  and that does not start with \<^verbatim>\<open>0x\<close> or \<^verbatim>\<open>0X\<close>, is read as its decimal prefix:
  the request is not rejected and is handled as the request for the prefix alone. The
  number read is the value of the prefix up to \<open>2 ^ 53 - 1\<close>, and it is the id of the
  targeted task when it is at most 2147483647.
\<close>

theorem parseInt_decimal_prefix:
  "(status (fst (deleteTaskRoute idParam s)) = 400) = (parseInt idParam = NaN)
   \<and> (status (fst (patchTask idParam b now s)) = 400) = (parseInt idParam = NaN)
   \<and> (ds \<noteq> [] \<and> (\<forall>d\<in>set ds. isDigit 10 d) \<and> \<not> isDigit 10 c
        \<and> \<not> (ds = ''0'' \<and> (c = CHR ''x'' \<or> c = CHR ''X''))
      \<longrightarrow> parseInt (ds @ c # rest) = parseInt ds
          \<and> parseInt ds \<noteq> NaN
          \<and> (digitsValue 10 ds \<le> 9007199254740991
               \<longrightarrow> parseInt (ds @ c # rest) = Integer (digitsValue 10 ds))
          \<and> (digitsValue 10 ds \<le> 2147483647
               \<longrightarrow> toInt4 (parseInt (ds @ c # rest)) = Some (word_of_int (digitsValue 10 ds)))
          \<and> deleteTaskRoute (ds @ c # rest) s = deleteTaskRoute ds s
          \<and> patchTask (ds @ c # rest) b now s = patchTask ds b now s
          \<and> status (fst (deleteTaskRoute (ds @ c # rest) s)) \<noteq> 400
          \<and> status (fst (patchTask (ds @ c # rest) b now s)) \<noteq> 400)"
proof -
  have main: "parseInt (ds @ c # rest) = parseInt ds
          \<and> parseInt ds \<noteq> NaN
          \<and> (digitsValue 10 ds \<le> 9007199254740991
               \<longrightarrow> parseInt (ds @ c # rest) = Integer (digitsValue 10 ds))
          \<and> (digitsValue 10 ds \<le> 2147483647
               \<longrightarrow> toInt4 (parseInt (ds @ c # rest)) = Some (word_of_int (digitsValue 10 ds)))
          \<and> deleteTaskRoute (ds @ c # rest) s = deleteTaskRoute ds s
          \<and> patchTask (ds @ c # rest) b now s = patchTask ds b now s
          \<and> status (fst (deleteTaskRoute (ds @ c # rest) s)) \<noteq> 400
          \<and> status (fst (patchTask (ds @ c # rest) b now s)) \<noteq> 400"
    if h: "ds \<noteq> []" "\<forall>d\<in>set ds. isDigit 10 d" "\<not> isDigit 10 c"
        "\<not> (ds = ''0'' \<and> (c = CHR ''x'' \<or> c = CHR ''X''))"
  proof -
    have 1: "parseInt (ds @ c # rest) = toNumber (digitsValue 10 ds)"
      using h by (rule parseInt_decimal_then)
    have 2: "parseInt ds = toNumber (digitsValue 10 ds)"
      using h(1,2) by (rule parseInt_decimal)
    have pos: "0 \<le> digitsValue 10 ds"
      unfolding digitsValue_def by (rule digitsValue_nonneg) simp
    have 3: "parseInt (ds @ c # rest) = Integer (digitsValue 10 ds)"
      if "digitsValue 10 ds \<le> 9007199254740991"
      using that pos by (simp add: 1 toNumber_def)
    have 4: "toInt4 (parseInt (ds @ c # rest)) = Some (word_of_int (digitsValue 10 ds))"
      if "digitsValue 10 ds \<le> 2147483647"
      using that pos by (simp add: 1 toInt4_toNumber)
    have 5: "deleteTaskRoute (ds @ c # rest) s = deleteTaskRoute ds s"
      by (simp add: deleteTaskRoute_def 1 2)
    have 6: "patchTask (ds @ c # rest) b now s = patchTask ds b now s"
      by (simp add: patchTask_def 1 2)
    from 1 2 3 4 5 6 show ?thesis
      by (simp add: deleteTaskRoute_400 patchTask_400 toNumber_not_NaN)
  qed
  show ?thesis
    using main deleteTaskRoute_400 [of idParam s] patchTask_400 [of idParam b now s] by blast
qed

theorem parseInt_decimal_prefix_witness:
  "parseInt ''12abc'' = Integer 12
   \<and> toInt4 (parseInt ''2abc'') = Some 2
   \<and> deleteTaskRoute ''2abc'' exampleStore = deleteTaskRoute ''2'' exampleStore
   \<and> status (fst (deleteTaskRoute ''2abc'' exampleStore)) = 204
   \<and> status (fst (patchTask ''2abc'' (setCompletionBody False) 40 exampleStore)) = 200"
proof -
  have e: "parseInt ''2abc'' = Integer 2" "parseInt ''12abc'' = Integer 12"
    "toInt4 (parseInt ''2abc'') = Some 2" "digitsValue 10 ''2'' = 2"
    by (simp_all add: parseInt_eval)
  have "status (fst (deleteTaskRoute ''2abc'' exampleStore)) = 204"
    by (simp add: deleteTaskRoute_def e deleteTask_def toInt4_def example_eval)
  moreover have "status (fst (patchTask ''2abc'' (setCompletionBody False) 40 exampleStore)) = 200"
    by (simp add: patchTask_def e updateTask_def toInt4_def patchUpdates_def setCompletionBody_def
        updateRows_def example_eval Let_def)
  ultimately show ?thesis
    using parseInt_decimal_prefix [of "''2abc''" exampleStore "setCompletionBody False" 40
        "''2''" "CHR ''a''" "''bc''"] e
    by (simp add: isDigit_def digitValue_def)
qed

text \<open>
  C10 as first stated fails on the hexadecimal prefix: \<^verbatim>\<open>0xyz\<close> starts with a digit
  followed by letters and is rejected with 400, and \<^verbatim>\<open>0xb\<close> is read as 11, not as its
  decimal prefix 0. Beyond \<open>2 ^ 53\<close> the number read is not the number written.
\<close>

theorem parseInt_prefix_counterexample:
  "parseInt ''0xyz'' = NaN
   \<and> status (fst (deleteTaskRoute ''0xyz'' exampleStore)) = 400
   \<and> status (fst (patchTask ''0xyz'' (setCompletionBody True) 40 exampleStore)) = 400
   \<and> parseInt ''0xb'' = Integer 11
   \<and> parseInt ''9007199254740993abc'' = Unsafe"
  by (simp add: deleteTaskRoute_def patchTask_def parseInt_eval)

end
